theory Spec2Isabelle
  imports Complex_Main
begin

section \<open>Python values and failures\<close>

text \<open>
  The three scripts (\<^verbatim>\<open>ingest_docset.py\<close>, \<^verbatim>\<open>query_docset.py\<close>, \<^verbatim>\<open>assist.py\<close>) stop in
  two ways: they print a diagnostic to standard error and call \<^verbatim>\<open>sys.exit(1)\<close>, or an
  exception of Python or of a library leaves \<^verbatim>\<open>main\<close> uncaught. Both are values here.
  \<open>Exit msg\<close> is the first; the other constructors are the exceptions that the modelled
  code can meet. Exceptions of the external collaborators (SQLite, the embedding
  backend, the vector-index library, the JSON reader) carry the collaborator's message.
\<close>

datatype error =
    Exit string
  | ValueError
  | IndexError
  | KeyError
  | FileNotFoundError
  | FileExistsError
  | IsADirectoryError
  | SqliteError string
  | BackendError string
  | IndexLibError string
  | JSONDecodeError string

subsection \<open>Slices, indexing and \<^verbatim>\<open>range\<close>\<close>

text \<open>
  A slice bound of Python: a negative bound counts from the end, and every bound is
  clamped into \<open>0..len\<close>. The slice \<^verbatim>\<open>xs[lo:hi]\<close> is empty when the normalised upper
  bound is not above the lower one.
\<close>

definition slice_bound :: "nat \<Rightarrow> int \<Rightarrow> nat" where
  "slice_bound n a = (if a < 0 then nat (max 0 (int n + a)) else min n (nat a))"

definition py_slice :: "'a list \<Rightarrow> int \<Rightarrow> int \<Rightarrow> 'a list" where
  "py_slice xs lo hi =
     (let n = length xs; l = slice_bound n lo; h = slice_bound n hi
      in take (h - l) (drop l xs))"

text \<open>\<^verbatim>\<open>xs[i]\<close> on a list: a negative index counts from the end, out of range raises.\<close>

definition py_getitem :: "'a list \<Rightarrow> int \<Rightarrow> error + 'a" where
  "py_getitem xs i =
     (if 0 \<le> i \<and> i < int (length xs) then Inr (xs ! nat i)
      else if i < 0 \<and> - int (length xs) \<le> i then Inr (xs ! nat (int (length xs) + i))
      else Inl IndexError)"

text \<open>
  \<^verbatim>\<open>range(start, stop, step)\<close>: a zero step raises \<^verbatim>\<open>ValueError\<close>; a positive step counts
  up while below \<open>stop\<close>, a negative one counts down while above it.
\<close>

function range_up :: "int \<Rightarrow> int \<Rightarrow> int \<Rightarrow> int list" where
  "range_up i stop step =
     (if 0 < step \<and> i < stop then i # range_up (i + step) stop step else [])"
  by pat_completeness auto
termination
  by (relation "measure (\<lambda>(i, stop, step). nat (stop - i))") auto

function range_down :: "int \<Rightarrow> int \<Rightarrow> int \<Rightarrow> int list" where
  "range_down i stop step =
     (if step < 0 \<and> stop < i then i # range_down (i + step) stop step else [])"
  by pat_completeness auto
termination
  by (relation "measure (\<lambda>(i, stop, step). nat (i - stop))") auto

declare range_up.simps [simp del] range_down.simps [simp del]

definition py_range :: "int \<Rightarrow> int \<Rightarrow> int \<Rightarrow> error + int list" where
  "py_range start stop step =
     (if step = 0 then Inl ValueError
      else if 0 < step then Inr (range_up start stop step)
      else Inr (range_down start stop step))"

section \<open>The chunker (\<^verbatim>\<open>ingest_docset.py\<close>, \<^verbatim>\<open>chunk_text\<close>)\<close>

text \<open>
  \<^verbatim>\<open>
  def chunk_text(text, max_tokens=500, overlap=50):
      enc = tiktoken.get_encoding('gpt2')
      tokens = enc.encode(text)
      chunks = []
      for i in range(0, len(tokens), max_tokens - overlap):
          chunk = tokens[i:i + max_tokens]
          chunks.append(enc.decode(chunk))
      return chunks
  \<close>
  The tokenizer is a library object: its two functions \<open>enc\<close> (\<^verbatim>\<open>enc.encode\<close>) and
  \<open>dec\<close> (\<^verbatim>\<open>enc.decode\<close>) are parameters, over any type of tokens. The loop body is
  \<open>chunk_loop\<close>, run over the list of indices that \<^verbatim>\<open>range\<close> yields.
\<close>

fun chunk_loop :: "('t list \<Rightarrow> string) \<Rightarrow> 't list \<Rightarrow> int \<Rightarrow> string list \<Rightarrow> int list \<Rightarrow> string list" where
  "chunk_loop dec tokens max_tokens chunks [] = chunks"
| "chunk_loop dec tokens max_tokens chunks (i # is) =
     chunk_loop dec tokens max_tokens
       (chunks @ [dec (py_slice tokens i (i + max_tokens))]) is"

definition chunk_text ::
  "(string \<Rightarrow> 't list) \<Rightarrow> ('t list \<Rightarrow> string) \<Rightarrow> string \<Rightarrow> int \<Rightarrow> int \<Rightarrow> error + string list" where
  "chunk_text enc dec text max_tokens overlap =
     (let tokens = enc text
      in case py_range 0 (int (length tokens)) (max_tokens - overlap) of
           Inl e \<Rightarrow> Inl e
         | Inr is \<Rightarrow> Inr (chunk_loop dec tokens max_tokens [] is))"

text \<open>
  A tokenizer for running the chunker on small inputs: one token per character. The
  number and the boundaries of the chunks depend on the token count only.
\<close>

definition char_encode :: "string \<Rightarrow> char list" where
  "char_encode text = text"

definition char_decode :: "char list \<Rightarrow> string" where
  "char_decode tokens = tokens"







section \<open>Paths and files\<close>

text \<open>
  The file system is a map from path strings to nodes; paths are compared as written
  (no normalisation), and the ancestors of a path are not tracked.
\<close>

datatype node = Dir | File string

type_synonym fs = "string \<rightharpoonup> node"

definition isfile :: "fs \<Rightarrow> string \<Rightarrow> bool" where
  "isfile fs p = (case fs p of Some (File c) \<Rightarrow> True | _ \<Rightarrow> False)"

definition isdir :: "fs \<Rightarrow> string \<Rightarrow> bool" where
  "isdir fs p = (case fs p of Some Dir \<Rightarrow> True | _ \<Rightarrow> False)"

text \<open>The content of a regular file (read only where \<open>isfile\<close> holds).\<close>

definition file_content :: "fs \<Rightarrow> string \<Rightarrow> string" where
  "file_content fs p = (case fs p of Some (File c) \<Rightarrow> c | _ \<Rightarrow> [])"

text \<open>\<^verbatim>\<open>os.path.join(a, b)\<close> of \<^verbatim>\<open>posixpath\<close>: an absolute \<open>b\<close> replaces \<open>a\<close>.\<close>

definition path_join :: "string \<Rightarrow> string \<Rightarrow> string" where
  "path_join a b =
     (if (case b of [] \<Rightarrow> False | c # cs \<Rightarrow> c = CHR ''/'') then b
      else if a = [] \<or> last a = CHR ''/'' then a @ b
      else a @ ''/'' @ b)"

text \<open>
  \<^verbatim>\<open>os.path.dirname(p)\<close>: the part up to the last slash, with trailing slashes removed
  unless it consists of slashes only.
\<close>

definition rstrip_sep :: "string \<Rightarrow> string" where
  "rstrip_sep p = rev (dropWhile (\<lambda>c. c = CHR ''/'') (rev p))"

definition dirname :: "string \<Rightarrow> string" where
  "dirname p =
     (let head = rev (dropWhile (\<lambda>c. c \<noteq> CHR ''/'') (rev p))
      in if head \<noteq> [] \<and> \<not> list_all (\<lambda>c. c = CHR ''/'') head then rstrip_sep head else head)"

text \<open>
  \<^verbatim>\<open>os.makedirs(name, exist_ok=True)\<close>: the empty name raises \<^verbatim>\<open>FileNotFoundError\<close>, an
  existing directory is accepted, an existing regular file raises \<^verbatim>\<open>FileExistsError\<close>.
\<close>

definition makedirs :: "fs \<Rightarrow> string \<Rightarrow> error + fs" where
  "makedirs fs name =
     (if name = [] then Inl FileNotFoundError
      else case fs name of
             Some (File c) \<Rightarrow> Inl FileExistsError
           | Some Dir \<Rightarrow> Inr fs
           | None \<Rightarrow> Inr (fs(name \<mapsto> Dir)))"

text \<open>Writing a whole file, as \<^verbatim>\<open>faiss.write_index\<close> and \<^verbatim>\<open>open(p, 'w')\<close> with \<^verbatim>\<open>json.dump\<close> do.\<close>

definition write_file :: "fs \<Rightarrow> string \<Rightarrow> string \<Rightarrow> error + fs" where
  "write_file fs p c = (if isdir fs p then Inl IsADirectoryError else Inr (fs(p \<mapsto> File c)))"

section \<open>The document extractor (\<^verbatim>\<open>ingest_docset.py\<close>, \<^verbatim>\<open>get_documents\<close>)\<close>

text \<open>
  \<^verbatim>\<open>
  def get_documents(docset_path):
      idx_path = os.path.join(docset_path, 'Contents/Resources/docSet.dsidx')
      docs_dir = os.path.join(docset_path, 'Contents/Resources/Documents')
      if not os.path.isfile(idx_path) or not os.path.isdir(docs_dir):
          print(f"Invalid docset path: {docset_path}", file=sys.stderr)
          sys.exit(1)
      ... entries = cursor.fetchall() ...
      docs = []
      for name, relpath in entries:
          file_path = os.path.join(docs_dir, relpath)
          if os.path.isfile(file_path):
              ... html = f.read()
              soup = BeautifulSoup(html, 'html.parser')
              text = soup.get_text(separator=' ', strip=True)
              docs.append((name, text))
      return docs
  \<close>
  Two collaborators are parameters: \<open>sql_entries\<close> answers the query
  \<^verbatim>\<open>SELECT name, path FROM searchIndex WHERE path NOT NULL\<close> on the content of the index
  file (or fails with SQLite's message), and \<open>get_text\<close> is the markup stripper.
\<close>

definition InvalidBundle :: "string \<Rightarrow> error" where
  "InvalidBundle docset_path = Exit (''Invalid docset path: '' @ docset_path)"

fun docs_loop :: "(string \<Rightarrow> string) \<Rightarrow> fs \<Rightarrow> string \<Rightarrow> (string \<times> string) list \<Rightarrow>
    (string \<times> string) list \<Rightarrow> (string \<times> string) list" where
  "docs_loop get_text fs docs_dir docs [] = docs"
| "docs_loop get_text fs docs_dir docs ((name, relpath) # entries) =
     (let file_path = path_join docs_dir relpath
      in if isfile fs file_path
         then docs_loop get_text fs docs_dir (docs @ [(name, get_text (file_content fs file_path))]) entries
         else docs_loop get_text fs docs_dir docs entries)"

definition get_documents ::
  "(string \<Rightarrow> string + (string \<times> string) list) \<Rightarrow> (string \<Rightarrow> string) \<Rightarrow> fs \<Rightarrow> string \<Rightarrow>
     error + (string \<times> string) list" where
  "get_documents sql_entries get_text fs docset_path =
     (let idx_path = path_join docset_path ''Contents/Resources/docSet.dsidx'';
          docs_dir = path_join docset_path ''Contents/Resources/Documents''
      in if \<not> isfile fs idx_path \<or> \<not> isdir fs docs_dir then Inl (InvalidBundle docset_path)
         else case sql_entries (file_content fs idx_path) of
                Inl msg \<Rightarrow> Inl (SqliteError msg)
              | Inr entries \<Rightarrow> Inr (docs_loop get_text fs docs_dir [] entries))"

section \<open>The vector index\<close>

text \<open>
  Vectors are Python lists of floats; their components are modelled as reals (rounding
  to \<^verbatim>\<open>float32\<close> is not modelled). A metadata record is the JSON object
  \<^verbatim>\<open>{'name': ..., 'text': ...}\<close>, an association list.
\<close>

type_synonym vec = "real list"

type_synonym entry = "(string \<times> string) list"

record index =
  idx_d :: nat
  idx_rows :: "vec list"

definition ntotal :: "index \<Rightarrow> nat" where
  "ntotal idx = length (idx_rows idx)"

text \<open>
  Modelled from the spec: the vector-index library (\<^verbatim>\<open>faiss\<close>) is an external collaborator
  and not part of the sources. \<open>IndexFlatL2\<close> is \<^verbatim>\<open>create(dimension)\<close>: an empty structure
  fixed to that dimension.
\<close>

definition IndexFlatL2 :: "nat \<Rightarrow> index" where
  "IndexFlatL2 d = \<lparr>idx_d = d, idx_rows = []\<rparr>"

text \<open>
  Modelled from the spec: \<^verbatim>\<open>add\<close> appends the rows in the given order when every vector
  has the store's dimension, and fails otherwise.
\<close>

definition index_add :: "index \<Rightarrow> vec list \<Rightarrow> error + index" where
  "index_add idx vs =
     (if list_all (\<lambda>v. length v = idx_d idx) vs
      then Inr (idx\<lparr>idx_rows := idx_rows idx @ vs\<rparr>)
      else Inl (IndexLibError ''DimensionMismatch''))"

text \<open>
  Modelled from the spec: \<^verbatim>\<open>search(query_vector, k)\<close> returns the \<open>k\<close> rows with smallest
  squared-Euclidean distance as parallel sequences of distances and row indices, ascending
  by distance; when the store has fewer than \<open>k\<close> rows, all of them, followed by \<open>-1\<close>
  sentinels up to \<open>k\<close> positions (with the largest \<^verbatim>\<open>float32\<close> as their distance).
\<close>

definition l2_distance :: "vec \<Rightarrow> vec \<Rightarrow> real" where
  "l2_distance q v = sum_list (map (\<lambda>(a, b). (a - b) * (a - b)) (zip q v))"

definition pad_distance :: real where
  "pad_distance = 340282346638528859811704183484516925440"

definition flat_search :: "index \<Rightarrow> vec \<Rightarrow> int \<Rightarrow> string + (real list \<times> int list)" where
  "flat_search idx q k =
     (let ranked = sort_key fst (zip (map (l2_distance q) (idx_rows idx)) (map int [0..<ntotal idx]));
          found = take (nat k) ranked;
          padded = found @ replicate (nat k - length found) (pad_distance, - 1)
      in Inr (map fst padded, map snd padded))"

section \<open>Ingestion (\<^verbatim>\<open>ingest_docset.py\<close>)\<close>

text \<open>
  \<^verbatim>\<open>
  def embed_texts(texts, model='text-embedding-ada-002'):
      resp = openai.Embedding.create(input=texts, model=model)
      return [data['embedding'] for data in resp['data']]
  \<close>
  The embedding backend is the parameter \<open>backend\<close>: it answers a batch of texts and a
  model name with the list of embeddings in \<^verbatim>\<open>resp['data']\<close>, or fails with a message.
\<close>

type_synonym backend = "string list \<Rightarrow> string \<Rightarrow> string + vec list"

definition embed_texts :: "backend \<Rightarrow> string list \<Rightarrow> string \<Rightarrow> error + vec list" where
  "embed_texts backend texts model =
     (case backend texts model of Inl msg \<Rightarrow> Inl (BackendError msg) | Inr data \<Rightarrow> Inr data)"

text \<open>
  The credential: \<^verbatim>\<open>key = args.openai_api_key or os.getenv('OPENAI_API_KEY')\<close>, then
  \<^verbatim>\<open>if not key\<close>. An absent or empty string is falsy.
\<close>

definition api_key :: "string option \<Rightarrow> string option \<Rightarrow> string option" where
  "api_key arg_key env_key =
     (case arg_key of None \<Rightarrow> env_key | Some k \<Rightarrow> if k = [] then env_key else Some k)"

definition no_key :: "string option \<Rightarrow> bool" where
  "no_key key = (case key of None \<Rightarrow> True | Some k \<Rightarrow> k = [])"

text \<open>
  Lines 98 to 102 of \<^verbatim>\<open>main\<close>: the chunks of every document are appended to \<open>texts\<close>, and
  a metadata record to \<open>meta\<close>, in the same iteration.
  \<^verbatim>\<open>
  texts, meta = [], []
  for name, text in docs:
      for chunk in chunk_text(text):
          texts.append(chunk)
          meta.append({'name': name, 'text': chunk})
  \<close>
\<close>

definition meta_record :: "string \<Rightarrow> string \<Rightarrow> entry" where
  "meta_record name chunk = [(''name'', name), (''text'', chunk)]"

fun append_chunks :: "string \<Rightarrow> string list \<times> entry list \<Rightarrow> string list \<Rightarrow> string list \<times> entry list" where
  "append_chunks name (texts, meta) [] = (texts, meta)"
| "append_chunks name (texts, meta) (chunk # chunks) =
     append_chunks name (texts @ [chunk], meta @ [meta_record name chunk]) chunks"

fun collect_chunks :: "(string \<Rightarrow> 't list) \<Rightarrow> ('t list \<Rightarrow> string) \<Rightarrow> string list \<times> entry list \<Rightarrow>
    (string \<times> string) list \<Rightarrow> error + string list \<times> entry list" where
  "collect_chunks enc dec (texts, meta) [] = Inr (texts, meta)"
| "collect_chunks enc dec (texts, meta) ((name, text) # docs) =
     (case chunk_text enc dec text 500 50 of
        Inl e \<Rightarrow> Inl e
      | Inr chunks \<Rightarrow> collect_chunks enc dec (append_chunks name (texts, meta) chunks) docs)"

text \<open>
  Lines 105 to 110: one backend call per batch of 50 texts; a failing call ends the loop.
  \<^verbatim>\<open>
  embeddings = []
  batch_size = 50
  for i in tqdm(range(0, len(texts), batch_size)):
      batch = texts[i:i + batch_size]
      embs = embed_texts(batch, model=args.model)
      embeddings.extend(embs)
  \<close>
\<close>

definition batch_size :: int where
  "batch_size = 50"

fun embed_loop :: "backend \<Rightarrow> string \<Rightarrow> string list \<Rightarrow> vec list \<Rightarrow> int list \<Rightarrow> error + vec list" where
  "embed_loop backend model texts embeddings [] = Inr embeddings"
| "embed_loop backend model texts embeddings (i # is) =
     (case embed_texts backend (py_slice texts i (i + batch_size)) model of
        Inl e \<Rightarrow> Inl e
      | Inr embs \<Rightarrow> embed_loop backend model texts (embeddings @ embs) is)"

definition embed_all :: "backend \<Rightarrow> string \<Rightarrow> string list \<Rightarrow> error + vec list" where
  "embed_all backend model texts =
     (case py_range 0 (int (length texts)) batch_size of
        Inl e \<Rightarrow> Inl e
      | Inr is \<Rightarrow> embed_loop backend model texts [] is)"

text \<open>
  Lines 113 to 116: \<^verbatim>\<open>embeddings[0]\<close> raises \<^verbatim>\<open>IndexError\<close> when there is no embedding; all
  vectors are added by one call.
  \<^verbatim>\<open>
  dim = len(embeddings[0])
  index = faiss.IndexFlatL2(dim)
  index.add(np.array(embeddings, dtype='float32'))
  \<close>
\<close>

definition build_index :: "vec list \<Rightarrow> error + index" where
  "build_index embeddings =
     (case embeddings of
        [] \<Rightarrow> Inl IndexError
      | e0 # rest \<Rightarrow> index_add (IndexFlatL2 (length e0)) embeddings)"

text \<open>Lines 97 to 116 together: from the documents to the index and its metadata.\<close>

definition build_store ::
  "(string \<Rightarrow> 't list) \<Rightarrow> ('t list \<Rightarrow> string) \<Rightarrow> backend \<Rightarrow> string \<Rightarrow> (string \<times> string) list \<Rightarrow>
     error + index \<times> entry list" where
  "build_store enc dec backend model docs =
     (case collect_chunks enc dec ([], []) docs of
        Inl e \<Rightarrow> Inl e
      | Inr (texts, meta) \<Rightarrow>
          (case embed_all backend model texts of
             Inl e \<Rightarrow> Inl e
           | Inr embeddings \<Rightarrow>
               (case build_index embeddings of
                  Inl e \<Rightarrow> Inl e
                | Inr index \<Rightarrow> Inr (index, meta))))"

text \<open>
  \<^verbatim>\<open>main\<close> of the ingestion script. The command line is the record \<open>ingest_args\<close>, the
  environment variable \<^verbatim>\<open>OPENAI_API_KEY\<close> is \<open>env_key\<close>. The serialisers of the index
  (\<^verbatim>\<open>faiss.write_index\<close>) and of the metadata (\<^verbatim>\<open>json.dump\<close>) are parameters. The result
  is the file system after the run and either the failure or the two paths written.
\<close>

record ingest_args =
  a_docset :: string
  a_output :: string
  a_model :: string
  a_key :: "string option"

definition persist ::
  "(index \<Rightarrow> string) \<Rightarrow> (entry list \<Rightarrow> string) \<Rightarrow> fs \<Rightarrow> string \<Rightarrow> index \<Rightarrow> entry list \<Rightarrow>
     fs \<times> (error + string \<times> string)" where
  "persist write_index json_dump fs output index meta =
     (case makedirs fs (dirname output) of
        Inl e \<Rightarrow> (fs, Inl e)
      | Inr fs1 \<Rightarrow>
          (case write_file fs1 output (write_index index) of
             Inl e \<Rightarrow> (fs1, Inl e)
           | Inr fs2 \<Rightarrow>
               (let meta_file = output @ ''.meta.json''
                in case write_file fs2 meta_file (json_dump meta) of
                     Inl e \<Rightarrow> (fs2, Inl e)
                   | Inr fs3 \<Rightarrow> (fs3, Inr (output, meta_file)))))"

definition ingest_main ::
  "(string \<Rightarrow> string + (string \<times> string) list) \<Rightarrow> (string \<Rightarrow> string) \<Rightarrow>
   (string \<Rightarrow> 't list) \<Rightarrow> ('t list \<Rightarrow> string) \<Rightarrow> backend \<Rightarrow>
   (index \<Rightarrow> string) \<Rightarrow> (entry list \<Rightarrow> string) \<Rightarrow>
   string option \<Rightarrow> fs \<Rightarrow> ingest_args \<Rightarrow> fs \<times> (error + string \<times> string)" where
  "ingest_main sql_entries get_text enc dec backend write_index json_dump env_key fs args =
     (if no_key (api_key (a_key args) env_key)
      then (fs, Inl (Exit ''Missing OpenAI API key (set --openai_api_key or env OPENAI_API_KEY)''))
      else case get_documents sql_entries get_text fs (a_docset args) of
             Inl e \<Rightarrow> (fs, Inl e)
           | Inr docs \<Rightarrow>
               if docs = [] then (fs, Inl (Exit ''No documents found in docset.''))
               else case build_store enc dec backend (a_model args) docs of
                      Inl e \<Rightarrow> (fs, Inl e)
                    | Inr (index, meta) \<Rightarrow>
                        persist write_index json_dump fs (a_output args) index meta)"

section \<open>Loading (\<^verbatim>\<open>query_docset.py\<close> and \<^verbatim>\<open>assist.py\<close>)\<close>

text \<open>
  \<^verbatim>\<open>
  def load_index(path):
      if not os.path.isfile(path):
          print(f"Index file not found: {path}", file=sys.stderr)
          sys.exit(1)
      return faiss.read_index(path)

  def load_metadata(path):
      if not os.path.isfile(path):
          print(f"Metadata file not found: {path}", file=sys.stderr)
          sys.exit(1)
      with open(path, 'r') as f:
          return json.load(f)
  \<close>
  Both scripts define the two functions alike. The readers \<^verbatim>\<open>faiss.read_index\<close> and
  \<^verbatim>\<open>json.load\<close> are the parameters \<open>read_index\<close> and \<open>json_load\<close>, on the file's content.
\<close>

definition load_index :: "(string \<Rightarrow> string + index) \<Rightarrow> fs \<Rightarrow> string \<Rightarrow> error + index" where
  "load_index read_index fs path =
     (if \<not> isfile fs path then Inl (Exit (''Index file not found: '' @ path))
      else case read_index (file_content fs path) of
             Inl msg \<Rightarrow> Inl (IndexLibError msg)
           | Inr index \<Rightarrow> Inr index)"

definition load_metadata :: "(string \<Rightarrow> string + entry list) \<Rightarrow> fs \<Rightarrow> string \<Rightarrow> error + entry list" where
  "load_metadata json_load fs path =
     (if \<not> isfile fs path then Inl (Exit (''Metadata file not found: '' @ path))
      else case json_load (file_content fs path) of
             Inl msg \<Rightarrow> Inl (JSONDecodeError msg)
           | Inr meta \<Rightarrow> Inr meta)"

text \<open>
  The two consecutive calls of both \<^verbatim>\<open>main\<close> functions,
  \<^verbatim>\<open>index = load_index(args.index)\<close> and \<^verbatim>\<open>meta = load_metadata(args.meta)\<close>: the load of
  the persisted pair.
\<close>

definition load_store ::
  "(string \<Rightarrow> string + index) \<Rightarrow> (string \<Rightarrow> string + entry list) \<Rightarrow> fs \<Rightarrow> string \<Rightarrow> string \<Rightarrow>
     error + index \<times> entry list" where
  "load_store read_index json_load fs index_path meta_path =
     (case load_index read_index fs index_path of
        Inl e \<Rightarrow> Inl e
      | Inr index \<Rightarrow>
          (case load_metadata json_load fs meta_path of
             Inl e \<Rightarrow> Inl e
           | Inr meta \<Rightarrow> Inr (index, meta)))"

section \<open>Retrieval\<close>

text \<open>
  The calls that leave the program are recorded in the order they are made, so that what
  happens before a call to the vector index can be stated.
\<close>

datatype event =
    EmbedCall "string list" string
  | SearchCall index vec int

type_synonym searcher = "index \<Rightarrow> vec \<Rightarrow> int \<Rightarrow> string + (real list \<times> int list)"

record query_result =
  res_name :: string
  res_chunk :: string
  res_distance :: real

text \<open>\<^verbatim>\<open>d.get(key, default)\<close> on a JSON object.\<close>

definition dict_get :: "entry \<Rightarrow> string \<Rightarrow> string \<Rightarrow> string" where
  "dict_get d key dflt = (case map_of d key of None \<Rightarrow> dflt | Some v \<Rightarrow> v)"

text \<open>
  \<^verbatim>\<open>
  def embed_text(text, model):
      resp = openai.Embedding.create(input=[text], model=model)
      return resp['data'][0]['embedding']
  \<close>
  (\<^verbatim>\<open>embed_query\<close> in \<^verbatim>\<open>query_docset.py\<close> is the same function.)
\<close>

definition embed_text :: "backend \<Rightarrow> string \<Rightarrow> string \<Rightarrow> error + vec" where
  "embed_text backend text model =
     (case backend [text] model of
        Inl msg \<Rightarrow> Inl (BackendError msg)
      | Inr data \<Rightarrow> (case data of [] \<Rightarrow> Inl IndexError | v # vs \<Rightarrow> Inr v))"

text \<open>
  \<^verbatim>\<open>
  def retrieve_docs(index, meta, query, embed_model, topk):
      emb = embed_text(query, embed_model)
      vec = np.array([emb], dtype='float32')
      D, I = index.search(vec, topk)
      results = []
      for dist, idx in zip(D[0], I[0]):
          entry = meta[idx]
          text = entry.get('text', '')
          name = entry.get('name', '<unknown>')
          results.append({'name': name, 'chunk': text, 'distance': float(dist)})
      return results
  \<close>
  \<open>search\<close> is the method \<^verbatim>\<open>index.search\<close> of the library; its answer is the row of
  distances \<^verbatim>\<open>D[0]\<close> and the row of indices \<^verbatim>\<open>I[0]\<close> for the one query vector.
\<close>

fun results_loop :: "entry list \<Rightarrow> query_result list \<Rightarrow> (real \<times> int) list \<Rightarrow> error + query_result list" where
  "results_loop meta results [] = Inr results"
| "results_loop meta results ((dst, idx) # rest) =
     (case py_getitem meta idx of
        Inl e \<Rightarrow> Inl e
      | Inr entry \<Rightarrow>
          results_loop meta
            (results @ [\<lparr>res_name = dict_get entry ''name'' ''<unknown>'',
                         res_chunk = dict_get entry ''text'' [],
                         res_distance = dst\<rparr>]) rest)"

definition retrieve_docs ::
  "searcher \<Rightarrow> backend \<Rightarrow> index \<Rightarrow> entry list \<Rightarrow> string \<Rightarrow> string \<Rightarrow> int \<Rightarrow>
     event list \<times> (error + query_result list)" where
  "retrieve_docs search backend index meta query embed_model topk =
     (case embed_text backend query embed_model of
        Inl e \<Rightarrow> ([EmbedCall [query] embed_model], Inl e)
      | Inr emb \<Rightarrow>
          (case search index emb topk of
             Inl msg \<Rightarrow>
               ([EmbedCall [query] embed_model, SearchCall index emb topk], Inl (IndexLibError msg))
           | Inr (D, I) \<Rightarrow>
               ([EmbedCall [query] embed_model, SearchCall index emb topk],
                results_loop meta [] (zip D I))))"

text \<open>
  The display loop of \<^verbatim>\<open>main\<close> in \<^verbatim>\<open>query_docset.py\<close>; it reads the text with
  \<^verbatim>\<open>meta[idx]['text']\<close>, which raises \<^verbatim>\<open>KeyError\<close> on a record without that key. What it
  prints is returned as results.
  \<^verbatim>\<open>
  D, I = index.search(vec, args.topk)
  for dist, idx in zip(D[0], I[0]):
      chunk = meta[idx]['text']
      name = meta[idx].get('name', '<unknown>')
      print(...)
  \<close>
\<close>

fun display_loop :: "entry list \<Rightarrow> query_result list \<Rightarrow> (real \<times> int) list \<Rightarrow> error + query_result list" where
  "display_loop meta shown [] = Inr shown"
| "display_loop meta shown ((dst, idx) # rest) =
     (case py_getitem meta idx of
        Inl e \<Rightarrow> Inl e
      | Inr entry \<Rightarrow>
          (case map_of entry ''text'' of
             None \<Rightarrow> Inl KeyError
           | Some chunk \<Rightarrow>
               display_loop meta
                 (shown @ [\<lparr>res_name = dict_get entry ''name'' ''<unknown>'',
                            res_chunk = chunk,
                            res_distance = dst\<rparr>]) rest))"

record query_args =
  q_index :: string
  q_meta :: string
  q_query :: string
  q_model :: string
  q_key :: "string option"
  q_topk :: int

text \<open>
  \<^verbatim>\<open>main\<close> of \<^verbatim>\<open>query_docset.py\<close>: credential, load, embed, search, display. \<^verbatim>\<open>--topk\<close> is
  parsed with \<^verbatim>\<open>type=int\<close>, so any integer arrives.
\<close>

definition query_main ::
  "(string \<Rightarrow> string + index) \<Rightarrow> (string \<Rightarrow> string + entry list) \<Rightarrow> searcher \<Rightarrow> backend \<Rightarrow>
   string option \<Rightarrow> fs \<Rightarrow> query_args \<Rightarrow> event list \<times> (error + query_result list)" where
  "query_main read_index json_load search backend env_key fs args =
     (if no_key (api_key (q_key args) env_key)
      then ([], Inl (Exit ''Missing OpenAI API key (set --openai_api_key or env OPENAI_API_KEY)''))
      else case load_store read_index json_load fs (q_index args) (q_meta args) of
             Inl e \<Rightarrow> ([], Inl e)
           | Inr (index, meta) \<Rightarrow>
               (case embed_text backend (q_query args) (q_model args) of
                  Inl e \<Rightarrow> ([EmbedCall [q_query args] (q_model args)], Inl e)
                | Inr emb \<Rightarrow>
                    (case search index emb (q_topk args) of
                       Inl msg \<Rightarrow>
                         ([EmbedCall [q_query args] (q_model args), SearchCall index emb (q_topk args)],
                          Inl (IndexLibError msg))
                     | Inr (D, I) \<Rightarrow>
                         ([EmbedCall [q_query args] (q_model args), SearchCall index emb (q_topk args)],
                          display_loop meta [] (zip D I)))))"

text \<open>
  \<^verbatim>\<open>main\<close> of \<^verbatim>\<open>assist.py\<close>: credential, load, \<^verbatim>\<open>retrieve_docs\<close>, then the snippets are
  printed (\<open>q_query\<close> is \<^verbatim>\<open>--question\<close>, \<open>q_model\<close> is \<^verbatim>\<open>--embed_model\<close>).
\<close>

definition assist_main ::
  "(string \<Rightarrow> string + index) \<Rightarrow> (string \<Rightarrow> string + entry list) \<Rightarrow> searcher \<Rightarrow> backend \<Rightarrow>
   string option \<Rightarrow> fs \<Rightarrow> query_args \<Rightarrow> event list \<times> (error + query_result list)" where
  "assist_main read_index json_load search backend env_key fs args =
     (if no_key (api_key (q_key args) env_key)
      then ([], Inl (Exit ''Missing OpenAI API key''))
      else case load_store read_index json_load fs (q_index args) (q_meta args) of
             Inl e \<Rightarrow> ([], Inl e)
           | Inr (index, meta) \<Rightarrow>
               retrieve_docs search backend index meta (q_query args) (q_model args) (q_topk args))"

section \<open>Small collaborators for running the code\<close>

text \<open>
  Stand-ins for the external collaborators, used where the code is run on a concrete
  input. The backend embeds a text as the one-component vector of its length; the
  index artifact is read as one one-component row per byte, the metadata artifact as one
  record per byte; the bundle index holds one entry per byte.
\<close>

definition len_backend :: backend where
  "len_backend texts model = Inr (map (\<lambda>t. [real (length t)]) texts)"

definition failing_backend :: backend where
  "failing_backend texts model = Inl ''rate limit''"

definition bytes_read_index :: "string \<Rightarrow> string + index" where
  "bytes_read_index c = Inr \<lparr>idx_d = 1, idx_rows = map (\<lambda>b. [real (of_char b :: nat)]) c\<rparr>"

definition bytes_json_load :: "string \<Rightarrow> string + entry list" where
  "bytes_json_load c = Inr (map (\<lambda>b. meta_record [b] [b]) c)"

definition bytes_sql_entries :: "string \<Rightarrow> string + (string \<times> string) list" where
  "bytes_sql_entries c = Inr (map (\<lambda>b. ([b], [b])) c)"

definition bytes_write_index :: "index \<Rightarrow> string" where
  "bytes_write_index idx = replicate (ntotal idx) CHR ''v''"

definition bytes_json_dump :: "entry list \<Rightarrow> string" where
  "bytes_json_dump meta = concat (map (\<lambda>e. dict_get e ''text'' []) meta)"

section \<open>Notions used in the statements\<close>

text \<open>
  The chunks of one document as \<^verbatim>\<open>main\<close> computes them, \<^verbatim>\<open>chunk_text(text)\<close> with the
  default parameters 500 and 50 (a positive step, so the call does not raise).
\<close>

definition default_chunks :: "(string \<Rightarrow> 't list) \<Rightarrow> ('t list \<Rightarrow> string) \<Rightarrow> string \<Rightarrow> string list" where
  "default_chunks enc dec text =
     (case chunk_text enc dec text 500 50 of Inl e \<Rightarrow> [] | Inr chunks \<Rightarrow> chunks)"

section \<open>Concrete inputs\<close>

text \<open>
  A bundle \<open>D\<close> whose index lists the entries \<open>a\<close> and \<open>b\<close>, of which only \<open>a\<close> has a
  backing file; and a persisted pair whose index artifact holds two rows while its
  metadata artifact holds one record.
\<close>

definition demo_bundle :: fs where
  "demo_bundle =
     [''D/Contents/Resources/docSet.dsidx'' \<mapsto> File ''ab'',
      ''D/Contents/Resources/Documents'' \<mapsto> Dir,
      ''D/Contents/Resources/Documents/a'' \<mapsto> File ''hi'']"

definition demo_store :: fs where
  "demo_store = [''i'' \<mapsto> File ''ab'', ''m'' \<mapsto> File ''x'']"

definition demo_ingest_args :: ingest_args where
  "demo_ingest_args = \<lparr>a_docset = ''D'', a_output = ''out/x'', a_model = ''e'', a_key = Some ''k''\<rparr>"

definition demo_query_args :: "int \<Rightarrow> query_args" where
  "demo_query_args k =
     \<lparr>q_index = ''i'', q_meta = ''m'', q_query = ''q'', q_model = ''e'', q_key = Some ''k'', q_topk = k\<rparr>"

section \<open>Properties of the chunker\<close>

subsection \<open>The loop, the slices and the range\<close>

lemma chunk_loop_map:
  "chunk_loop dec tokens mx acc is = acc @ map (\<lambda>i. dec (py_slice tokens i (i + mx))) is"
  by (induction "is" arbitrary: acc) auto

lemma py_slice_window:
  "0 \<le> i \<Longrightarrow> 0 \<le> mx \<Longrightarrow> py_slice xs i (i + mx) = take (nat mx) (drop (nat i) xs)"
  by (auto simp: py_slice_def slice_bound_def Let_def min_def nat_add_distrib)

lemma range_up_length:
  "0 < step \<Longrightarrow> length (range_up i stop step) = nat ((stop - i + step - 1) div step)"
proof (induction i stop step rule: range_up.induct)
  case (1 i stop step)
  show ?case
  proof (cases "i < stop")
    case True
    have "(stop - i + step - 1) div step = (stop - (i + step) + step - 1) div step + 1"
      using 1(2) by (smt (verit) div_add_self2)
    moreover have "0 \<le> (stop - (i + step) + step - 1) div step"
      using True 1(2) by (simp add: pos_imp_zdiv_nonneg_iff)
    ultimately show ?thesis
      using True 1 by (subst range_up.simps) (simp add: nat_add_distrib)
  next
    case False
    then have "(stop - i + step - 1) div step \<le> 0"
      using 1(2) by (cases "0 \<le> stop - i + step - 1") (simp_all add: div_pos_pos_trivial pos_imp_zdiv_neg_iff less_imp_le not_le)
    with False show ?thesis
      by (subst range_up.simps) simp
  qed
qed

lemma range_up_nth:
  "0 < step \<Longrightarrow> j < length (range_up i stop step) \<Longrightarrow> range_up i stop step ! j = i + int j * step"
proof (induction i stop step arbitrary: j rule: range_up.induct)
  case (1 i stop step)
  show ?case
  proof (cases "i < stop")
    case True
    then have eq: "range_up i stop step = i # range_up (i + step) stop step"
      using 1(2) by (subst range_up.simps) simp
    show ?thesis
    proof (cases j)
      case 0
      then show ?thesis by (simp add: eq)
    next
      case (Suc k)
      then have "k < length (range_up (i + step) stop step)"
        using 1(3) eq by simp
      then have "range_up (i + step) stop step ! k = i + step + int k * step"
        using 1(1)[of k] True 1(2) by simp
      then show ?thesis using Suc eq by (simp add: algebra_simps)
    qed
  next
    case False
    then have "range_up i stop step = []"
      by (subst range_up.simps) simp
    with 1(3) show ?thesis by simp
  qed
qed




lemma range_up_bounds:
  "x \<in> set (range_up i stop step) \<Longrightarrow> i \<le> x \<and> x < stop"
proof (induction i stop step rule: range_up.induct)
  case (1 i stop step)
  show ?case
  proof (cases "0 < step \<and> i < stop")
    case True
    then have "x = i \<or> x \<in> set (range_up (i + step) stop step)"
      using 1(2) by (subst (asm) range_up.simps) simp
    then show ?thesis
      using 1(1) True by auto
  next
    case False
    then have "range_up i stop step = []"
      by (subst range_up.simps) auto
    with 1(2) show ?thesis by simp
  qed
qed

lemma ceiling_div_pos:
  assumes "0 < (b::int)"
  shows "\<lceil>real_of_int a / real_of_int b\<rceil> = (a + b - 1) div b"
proof -
  define k where "k = (a + b - 1) div b"
  have m: "k * b + (a + b - 1) mod b = a + b - 1"
    unfolding k_def by simp
  have r: "0 \<le> (a + b - 1) mod b" "(a + b - 1) mod b < b"
    using assms by simp_all
  have up: "a \<le> k * b"
    using m r by linarith
  have lo: "(k - 1) * b < a"
    using m r by (simp add: algebra_simps)
  have "real_of_int a \<le> real_of_int (k * b)"
    using up by (simp only: of_int_le_iff)
  then have 1: "real_of_int a / real_of_int b \<le> real_of_int k"
    using assms by (simp add: pos_divide_le_eq)
  have "real_of_int ((k - 1) * b) < real_of_int a"
    using lo by (simp only: of_int_less_iff)
  then have 2: "real_of_int k - 1 < real_of_int a / real_of_int b"
    using assms by (simp add: pos_less_divide_eq)
  show ?thesis
    unfolding k_def [symmetric] using 2 1 by (rule ceiling_unique)
qed

subsection \<open>Number and content of the chunks\<close>

text \<open>
  Claim C10. For a token sequence of length \<open>n\<close> and \<open>0 \<le> overlap < max_tokens\<close>,
  \<open>chunk_text\<close> returns \<open>\<lceil>n / (max_tokens - overlap)\<rceil>\<close> chunks, none when the text has no
  token; the \<open>i\<close>-th chunk is the decoding of the slice of at most \<open>max_tokens\<close> tokens
  that starts at token \<open>i * (max_tokens - overlap)\<close>, and that slice is not empty (so
  the chunk is not empty either, for a decoder that maps no token sequence but the empty
  one to the empty string).
\<close>

theorem chunk_text_count_and_windows:
  assumes "0 \<le> overlap" and "overlap < max_tokens"
  shows "\<exists>chunks. chunk_text enc dec text max_tokens overlap = Inr chunks
           \<and> int (length chunks) = \<lceil>real (length (enc text)) / real_of_int (max_tokens - overlap)\<rceil>
           \<and> (enc text = [] \<longrightarrow> chunks = [])
           \<and> (\<forall>i < length chunks.
                 chunks ! i = dec (take (nat max_tokens) (drop (i * nat (max_tokens - overlap)) (enc text)))
               \<and> take (nat max_tokens) (drop (i * nat (max_tokens - overlap)) (enc text)) \<noteq> []
               \<and> length (take (nat max_tokens) (drop (i * nat (max_tokens - overlap)) (enc text))) \<le> nat max_tokens
               \<and> ((\<forall>ts. ts \<noteq> [] \<longrightarrow> dec ts \<noteq> []) \<longrightarrow> chunks ! i \<noteq> []))"
proof -
  define tokens where "tokens = enc text"
  define step where "step = max_tokens - overlap"
  define n where "n = int (length tokens)"
  define chunks where "chunks = map (\<lambda>i. dec (py_slice tokens i (i + max_tokens))) (range_up 0 n step)"
  have step: "0 < step" and mx: "0 < max_tokens"
    using assms by (simp_all add: step_def)
  have run: "chunk_text enc dec text max_tokens overlap = Inr chunks"
    using step by (simp add: chunk_text_def py_range_def chunk_loop_map chunks_def tokens_def step_def n_def Let_def)
  have len: "length chunks = nat ((n + step - 1) div step)"
    using range_up_length [OF step, of 0 n] by (simp add: chunks_def)
  have nn: "0 \<le> (n + step - 1) div step"
    using step by (simp add: pos_imp_zdiv_nonneg_iff n_def)
  have cnt: "int (length chunks) = \<lceil>real (length (enc text)) / real_of_int (max_tokens - overlap)\<rceil>"
    using ceiling_div_pos [OF step, of n] nn len by (simp add: n_def tokens_def step_def)
  have empty: "enc text = [] \<longrightarrow> chunks = []"
    by (simp add: chunks_def tokens_def n_def range_up.simps)
  have each: "chunks ! i = dec (take (nat max_tokens) (drop (i * nat step) tokens))
      \<and> take (nat max_tokens) (drop (i * nat step) tokens) \<noteq> []"
    if i: "i < length chunks" for i
  proof -
    have il: "i < length (range_up 0 n step)"
      using i by (simp add: chunks_def)
    have at: "range_up 0 n step ! i = int i * step"
      using range_up_nth [OF step il] by simp
    have "int i * step < n"
      using range_up_bounds [OF nth_mem [OF il]] at by simp
    moreover have "int (i * nat step) = int i * step"
      using step by simp
    ultimately have "int (i * nat step) < int (length tokens)"
      by (simp only: n_def)
    then have "i * nat step < length tokens"
      by (simp only: of_nat_less_iff)
    moreover have "chunks ! i = dec (take (nat max_tokens) (drop (i * nat step) tokens))"
      using il at step mx by (simp add: chunks_def py_slice_window nat_mult_distrib)
    ultimately show ?thesis
      using mx by simp
  qed
  show ?thesis
    using run cnt empty each by (intro exI [of _ chunks]) (simp add: step_def tokens_def)
qed

theorem chunk_text_count_and_windows_witness:
  "(0::int) \<le> 1 \<and> (1::int) < 4 \<and>
   (\<exists>chunks. chunk_text char_encode char_decode ''abcdefghij'' 4 1 = Inr chunks
      \<and> int (length chunks) = \<lceil>real (length (char_encode ''abcdefghij'')) / real_of_int (4 - 1)\<rceil>
      \<and> (char_encode ''abcdefghij'' = [] \<longrightarrow> chunks = [])
      \<and> (\<forall>i < length chunks.
            chunks ! i = char_decode (take (nat 4) (drop (i * nat (4 - 1)) (char_encode ''abcdefghij'')))
          \<and> take (nat 4) (drop (i * nat (4 - 1)) (char_encode ''abcdefghij'')) \<noteq> []
          \<and> length (take (nat 4) (drop (i * nat (4 - 1)) (char_encode ''abcdefghij''))) \<le> nat 4
          \<and> ((\<forall>ts. ts \<noteq> [] \<longrightarrow> char_decode ts \<noteq> []) \<longrightarrow> chunks ! i \<noteq> [])))"
proof -
  have h1: "(0::int) \<le> 1" and h2: "(1::int) < 4"
    by simp_all
  show ?thesis
    using h1 h2
      chunk_text_count_and_windows [of 1 4 char_encode char_decode "''abcdefghij''", OF h1 h2]
    by (intro conjI)
qed

subsection \<open>Short texts\<close>

text \<open>
  Claim C2 says that a text with fewer than \<open>max_tokens\<close> tokens gives exactly one chunk,
  the whole text. The code starts a window at every multiple of
  \<open>max_tokens - overlap\<close> below the token count: three tokens with \<open>max_tokens = 4\<close> and
  \<open>overlap = 2\<close> give a second chunk that starts at token 2, and a text without tokens
  gives no chunk at all.
\<close>

theorem chunk_text_single_chunk_counterexample:
  "int (length (char_encode ''abc'')) < 4 \<and> (2::int) < 4
     \<and> chunk_text char_encode char_decode ''abc'' 4 2 = Inr [''abc'', ''c'']
     \<and> int (length (char_encode [])) < 4
     \<and> chunk_text char_encode char_decode [] 4 2 = Inr []"
  by (simp add: chunk_text_def char_encode_def char_decode_def py_range_def range_up.simps
      py_slice_def slice_bound_def)

text \<open>
  Claim C2, amended. A text with at least one token, fewer than \<open>max_tokens\<close> tokens and
  at most \<open>max_tokens - overlap\<close> tokens gives exactly one chunk, the decoding of all its
  tokens; it is the text itself when the tokenizer decodes the text's tokens back to the
  text.
\<close>

theorem chunk_text_single_chunk:
  assumes "overlap < max_tokens"
    and "enc text \<noteq> []"
    and "int (length (enc text)) < max_tokens"
    and "int (length (enc text)) \<le> max_tokens - overlap"
  shows "chunk_text enc dec text max_tokens overlap = Inr [dec (enc text)]
         \<and> (dec (enc text) = text \<longrightarrow> chunk_text enc dec text max_tokens overlap = Inr [text])"
proof -
  define n where "n = int (length (enc text))"
  define step where "step = max_tokens - overlap"
  have pos: "0 < n" "0 < step" "n \<le> step" "n < max_tokens"
    using assms by (simp_all add: n_def step_def)
  have "range_up (0 + step) n step = []"
    using pos by (subst range_up.simps) simp
  then have r: "range_up 0 n step = [0]"
    using pos by (subst range_up.simps) simp
  have "py_slice (enc text) 0 (0 + max_tokens) = take (nat max_tokens) (drop (nat 0) (enc text))"
    using pos by (intro py_slice_window) simp_all
  then have sl: "py_slice (enc text) 0 max_tokens = enc text"
    using pos by (simp add: n_def)
  have "chunk_text enc dec text max_tokens overlap = Inr [dec (enc text)]"
    using pos r sl by (simp add: chunk_text_def py_range_def n_def step_def Let_def)
  then show ?thesis by simp
qed

theorem chunk_text_single_chunk_witness:
  "(2::int) < 4 \<and> char_encode ''ab'' \<noteq> [] \<and> int (length (char_encode ''ab'')) < 4
     \<and> int (length (char_encode ''ab'')) \<le> 4 - 2
     \<and> char_decode (char_encode ''ab'') = ''ab''
     \<and> chunk_text char_encode char_decode ''ab'' 4 2 = Inr [''ab'']"
proof -
  have h: "(2::int) < 4" "char_encode ''ab'' \<noteq> []" "int (length (char_encode ''ab'')) < 4"
    "int (length (char_encode ''ab'')) \<le> 4 - 2"
    by (simp_all add: char_encode_def)
  have rt: "char_decode (char_encode ''ab'') = ''ab''"
    by (simp add: char_encode_def char_decode_def)
  show ?thesis
    using h rt chunk_text_single_chunk [of 2 4 char_encode "''ab''" char_decode, OF h]
    by simp
qed

subsection \<open>Coverage\<close>




section \<open>Properties of the document extractor\<close>

lemma docs_loop_eq:
  "docs_loop g fs d acc es =
     acc @ map (\<lambda>(name, relpath). (name, g (file_content fs (path_join d relpath))))
             (filter (\<lambda>(name, relpath). isfile fs (path_join d relpath)) es)"
  by (induction es arbitrary: acc) (auto simp: Let_def)

text \<open>
  Claim C8. The extractor ends with the diagnostic of an invalid bundle exactly when
  the index file or the document directory is absent. Otherwise, once the index has
  listed its entries, every entry whose backing file exists yields one document
  \<open>(name, text)\<close>, in the order of the index, and every entry whose file is missing is
  skipped without error.
\<close>

theorem get_documents_contract:
  "(get_documents sql_entries get_text fs docset_path = Inl (InvalidBundle docset_path)
      \<longleftrightarrow> \<not> isfile fs (path_join docset_path ''Contents/Resources/docSet.dsidx'')
          \<or> \<not> isdir fs (path_join docset_path ''Contents/Resources/Documents''))
   \<and> (isfile fs (path_join docset_path ''Contents/Resources/docSet.dsidx'')
        \<and> isdir fs (path_join docset_path ''Contents/Resources/Documents'')
        \<and> sql_entries (file_content fs (path_join docset_path ''Contents/Resources/docSet.dsidx'')) = Inr entries
      \<longrightarrow> get_documents sql_entries get_text fs docset_path =
            Inr (map (\<lambda>(name, relpath).
                       (name, get_text (file_content fs
                          (path_join (path_join docset_path ''Contents/Resources/Documents'') relpath))))
                  (filter (\<lambda>(name, relpath).
                       isfile fs (path_join (path_join docset_path ''Contents/Resources/Documents'') relpath))
                     entries)))"
  by (auto simp: get_documents_def Let_def docs_loop_eq InvalidBundle_def split: sum.splits)

theorem get_documents_contract_witness:
  "isfile demo_bundle (path_join ''D'' ''Contents/Resources/docSet.dsidx'')
   \<and> isdir demo_bundle (path_join ''D'' ''Contents/Resources/Documents'')
   \<and> bytes_sql_entries (file_content demo_bundle (path_join ''D'' ''Contents/Resources/docSet.dsidx''))
        = Inr [(''a'', ''a''), (''b'', ''b'')]
   \<and> get_documents bytes_sql_entries (\<lambda>html. html) demo_bundle ''D'' = Inr [(''a'', ''hi'')]
   \<and> get_documents bytes_sql_entries (\<lambda>html. html) demo_bundle ''D'' \<noteq> Inl (InvalidBundle ''D'')"
  using get_documents_contract [of bytes_sql_entries "\<lambda>html. html" demo_bundle "''D''" "[(''a'', ''a''), (''b'', ''b'')]"]
  by (simp add: demo_bundle_def isfile_def isdir_def file_content_def path_join_def bytes_sql_entries_def)

section \<open>Properties of ingestion\<close>

subsection \<open>The two loops\<close>

lemma chunk_text_default:
  "chunk_text enc dec text 500 50 = Inr (default_chunks enc dec text)"
  by (simp add: default_chunks_def chunk_text_def py_range_def Let_def)

lemma append_chunks_eq:
  "append_chunks name (texts, meta) chunks = (texts @ chunks, meta @ map (meta_record name) chunks)"
  by (induction chunks arbitrary: texts meta) simp_all

lemma collect_chunks_eq:
  "collect_chunks enc dec (texts, meta) docs =
     Inr (texts @ concat (map (\<lambda>(name, text). default_chunks enc dec text) docs),
          meta @ concat (map (\<lambda>(name, text). map (meta_record name) (default_chunks enc dec text)) docs))"
  by (induction docs arbitrary: texts meta) (auto simp: chunk_text_default append_chunks_eq)

lemma meta_texts:
  "map (\<lambda>e. dict_get e ''text'' [])
     (concat (map (\<lambda>(name, text). map (meta_record name) (default_chunks enc dec text)) docs))
   = concat (map (\<lambda>(name, text). default_chunks enc dec text) docs)"
  by (induction docs) (auto simp: dict_get_def meta_record_def o_def)

lemma batch_slice:
  "0 \<le> i \<Longrightarrow> py_slice texts i (i + batch_size) = take 50 (drop (nat i) texts)"
  using py_slice_window [of i 50 texts] by (simp add: batch_size_def)

lemma embed_loop_pointwise:
  assumes pw: "\<And>b vs. backend b model = Inr vs \<Longrightarrow> vs = map emb b"
  shows "0 \<le> i \<Longrightarrow>
     embed_loop backend model texts acc (range_up i (int (length texts)) batch_size) = Inr r \<Longrightarrow>
     r = acc @ map emb (drop (nat i) texts)"
proof (induction i "int (length texts)" batch_size arbitrary: acc rule: range_up.induct)
  case (1 i)
  show ?case
  proof (cases "i < int (length texts)")
    case True
    then have r: "range_up i (int (length texts)) batch_size
        = i # range_up (i + batch_size) (int (length texts)) batch_size"
      by (subst range_up.simps) (simp add: batch_size_def)
    obtain embs where e: "embed_texts backend (py_slice texts i (i + batch_size)) model = Inr embs"
      and rest: "embed_loop backend model texts (acc @ embs)
          (range_up (i + batch_size) (int (length texts)) batch_size) = Inr r"
      using 1(3) r by (auto split: sum.splits)
    have "backend (take 50 (drop (nat i) texts)) model = Inr embs"
      using e 1(2) by (auto simp: embed_texts_def batch_slice split: sum.splits)
    then have embs: "embs = map emb (take 50 (drop (nat i) texts))"
      by (rule pw)
    have "r = (acc @ embs) @ map emb (drop (nat (i + batch_size)) texts)"
      using 1(1) [OF _ _ rest] True 1(2) by (simp add: batch_size_def)
    moreover have "drop (nat (i + batch_size)) texts = drop 50 (drop (nat i) texts)"
      using 1(2) by (simp add: batch_size_def nat_add_distrib add.commute)
    ultimately have "r = acc @ map emb (take 50 (drop (nat i) texts) @ drop 50 (drop (nat i) texts))"
      using embs by (simp del: append_take_drop_id drop_drop)
    then show ?thesis
      by (simp only: append_take_drop_id)
  next
    case False
    then have "range_up i (int (length texts)) batch_size = []"
      by (subst range_up.simps) simp
    with 1(3) False 1(2) show ?thesis by simp
  qed
qed

lemma embed_all_pointwise:
  assumes "\<And>b vs. backend b model = Inr vs \<Longrightarrow> vs = map emb b"
    and "embed_all backend model texts = Inr embeddings"
  shows "embeddings = map emb texts"
  using embed_loop_pointwise [of backend model emb 0 texts "[]" embeddings] assms
  by (simp add: embed_all_def py_range_def batch_size_def)

lemma build_index_rows:
  "build_index embeddings = Inr index \<Longrightarrow> idx_rows index = embeddings"
  by (auto simp: build_index_def index_add_def IndexFlatL2_def split: list.splits if_splits)

subsection \<open>Row alignment\<close>

text \<open>
  Claim C7. For an embedding backend that answers a batch with one vector per text, in
  order (\<open>emb\<close> of each text), the index built by ingestion has as many rows as the
  metadata sequence has records, and row \<open>i\<close> is the embedding of the chunk text that the
  record at position \<open>i\<close> holds. The records are the chunks of the documents in document
  order; after any number \<open>k\<close> of documents the texts and the records collected so far
  have the same length and are the first rows and records of the final sequences.
\<close>

theorem ingestion_row_alignment:
  assumes pw: "\<And>b vs. backend b model = Inr vs \<Longrightarrow> vs = map emb b"
    and built: "build_store enc dec backend model docs = Inr (index, meta)"
  shows "ntotal index = length meta
       \<and> (\<forall>i < length meta. idx_rows index ! i = emb (dict_get (meta ! i) ''text'' []))
       \<and> meta = concat (map (\<lambda>(name, text). map (meta_record name) (default_chunks enc dec text)) docs)
       \<and> (\<forall>k \<le> length docs. \<exists>texts_k meta_k.
             collect_chunks enc dec ([], []) (take k docs) = Inr (texts_k, meta_k)
           \<and> length texts_k = length meta_k
           \<and> meta_k = take (length meta_k) meta
           \<and> map emb texts_k = take (length meta_k) (idx_rows index))"
proof -
  define T where "T ds = concat (map (\<lambda>(name, text). default_chunks enc dec text) ds)" for ds :: "(string \<times> string) list"
  define M where "M ds = concat (map (\<lambda>(name, text). map (meta_record name) (default_chunks enc dec text)) ds)" for ds :: "(string \<times> string) list"
  have coll: "collect_chunks enc dec ([], []) ds = Inr (T ds, M ds)" for ds
    by (simp add: collect_chunks_eq T_def M_def)
  have MT: "map (\<lambda>e. dict_get e ''text'' []) (M ds) = T ds" for ds
    by (simp add: T_def M_def meta_texts)
  then have len: "length (T ds) = length (M ds)" for ds
    by (metis length_map)
  obtain embeddings where emb: "embed_all backend model (T docs) = Inr embeddings"
    and idx: "build_index embeddings = Inr index" and meta: "meta = M docs"
    using built by (auto simp: build_store_def coll split: sum.splits)
  have rows: "idx_rows index = map emb (T docs)"
    using embed_all_pointwise [OF pw emb] build_index_rows [OF idx] by simp
  have rows': "idx_rows index = map (\<lambda>e. emb (dict_get e ''text'' [])) meta"
  proof -
    have "map emb (T docs) = map emb (map (\<lambda>e. dict_get e ''text'' []) (M docs))"
      by (simp only: MT)
    then show ?thesis
      by (simp add: rows meta o_def)
  qed
  have 1: "ntotal index = length meta"
    using rows' by (simp add: ntotal_def)
  have 2: "\<forall>i < length meta. idx_rows index ! i = emb (dict_get (meta ! i) ''text'' [])"
    using rows' by simp
  have 4: "\<exists>texts_k meta_k.
             collect_chunks enc dec ([], []) (take k docs) = Inr (texts_k, meta_k)
           \<and> length texts_k = length meta_k
           \<and> meta_k = take (length meta_k) meta
           \<and> map emb texts_k = take (length meta_k) (idx_rows index)" if "k \<le> length docs" for k
  proof -
    have split: "docs = take k docs @ drop k docs"
      by simp
    have "M docs = M (take k docs) @ M (drop k docs)"
      by (subst split) (simp only: M_def map_append concat_append)
    then have a: "M (take k docs) = take (length (M (take k docs))) meta"
      by (simp add: meta)
    have "T docs = T (take k docs) @ T (drop k docs)"
      by (subst split) (simp only: T_def map_append concat_append)
    then have b: "map emb (T (take k docs)) = take (length (M (take k docs))) (idx_rows index)"
      by (simp add: rows len [symmetric])
    show ?thesis
      using coll [of "take k docs"] len [of "take k docs"] a b by blast
  qed
  show ?thesis
    using 1 2 4 meta by (simp add: M_def)
qed

theorem ingestion_row_alignment_witness:
  "len_backend = (\<lambda>b model. Inr (map (\<lambda>t. [real (length t)]) b))
   \<and> build_store char_encode char_decode len_backend ''e'' [(''A'', ''hi'')]
        = Inr (\<lparr>idx_d = 1, idx_rows = [[2]]\<rparr>, [meta_record ''A'' ''hi''])
   \<and> ntotal \<lparr>idx_d = 1, idx_rows = [[2]]\<rparr> = length [meta_record ''A'' ''hi'']
   \<and> idx_rows \<lparr>idx_d = 1, idx_rows = [[2]]\<rparr> ! 0 = [real (length (dict_get ([meta_record ''A'' ''hi''] ! 0) ''text'' []))]"
proof -
  have h0: "\<forall>b vs. len_backend b ''e'' = Inr vs \<longrightarrow> vs = map (\<lambda>t. [real (length t)]) b"
    by (auto simp: len_backend_def)
  have built: "build_store char_encode char_decode len_backend ''e'' [(''A'', ''hi'')]
        = Inr (\<lparr>idx_d = 1, idx_rows = [[2]]\<rparr>, [meta_record ''A'' ''hi''])"
    by (simp add: build_store_def chunk_text_def char_encode_def char_decode_def py_range_def
        range_up.simps py_slice_def slice_bound_def embed_all_def embed_texts_def batch_size_def
        len_backend_def build_index_def index_add_def IndexFlatL2_def)
  note aligned = ingestion_row_alignment [OF h0 [rule_format] built]
  have rows: "ntotal \<lparr>idx_d = 1, idx_rows = [[2]]\<rparr> = length [meta_record ''A'' ''hi'']"
    using aligned by (rule conjunct1)
  have "0 < length [meta_record ''A'' ''hi'']"
    by simp
  then have row0: "idx_rows \<lparr>idx_d = 1, idx_rows = [[2]]\<rparr> ! 0
      = [real (length (dict_get ([meta_record ''A'' ''hi''] ! 0) ''text'' []))]"
    using aligned [THEN conjunct2, THEN conjunct1] by blast
  have backend: "len_backend = (\<lambda>b model. Inr (map (\<lambda>t. [real (length t)]) b))"
    by (intro ext) (simp add: len_backend_def)
  show ?thesis
    using backend built rows row0 by (intro conjI)
qed

subsection \<open>A failing batch\<close>

lemma embed_loop_fails:
  "i \<in> set is \<Longrightarrow> backend (py_slice texts i (i + batch_size)) model = Inl msg \<Longrightarrow>
   \<exists>e. embed_loop backend model texts acc is = Inl e"
  by (induction "is" arbitrary: acc) (auto simp: embed_texts_def split: sum.splits)

text \<open>
  Claim C9. If the backend fails on any batch of the run, \<^verbatim>\<open>main\<close> ends with a failure
  and the file system is as it was: neither the index file nor the metadata file has
  been written, since both are written after the embedding loop has finished.
\<close>

theorem failed_batch_persists_nothing:
  assumes docs: "get_documents sql_entries get_text fs (a_docset args) = Inr docs"
    and chunks: "collect_chunks enc dec ([], []) docs = Inr (texts, meta)"
    and batch: "i \<in> set (range_up 0 (int (length texts)) batch_size)"
    and fails: "backend (py_slice texts i (i + batch_size)) (a_model args) = Inl msg"
  shows "\<exists>e. ingest_main sql_entries get_text enc dec backend write_index json_dump env_key fs args
              = (fs, Inl e)"
proof -
  obtain e where "embed_loop backend (a_model args) texts [] (range_up 0 (int (length texts)) batch_size) = Inl e"
    using embed_loop_fails [where backend = backend and model = "a_model args" and acc = "[]", OF batch fails]
    by blast
  then have "embed_all backend (a_model args) texts = Inl e"
    by (simp add: embed_all_def py_range_def batch_size_def)
  then have "build_store enc dec backend (a_model args) docs = Inl e"
    using chunks by (simp add: build_store_def)
  then show ?thesis
    using docs by (simp add: ingest_main_def)
qed

theorem failed_batch_persists_nothing_witness:
  "get_documents bytes_sql_entries (\<lambda>html. html) demo_bundle (a_docset demo_ingest_args) = Inr [(''a'', ''hi'')]
   \<and> collect_chunks char_encode char_decode ([], []) [(''a'', ''hi'')] = Inr ([''hi''], [meta_record ''a'' ''hi''])
   \<and> 0 \<in> set (range_up 0 (int (length [''hi''])) batch_size)
   \<and> failing_backend (py_slice [''hi''] 0 (0 + batch_size)) (a_model demo_ingest_args) = Inl ''rate limit''
   \<and> (\<exists>e. ingest_main bytes_sql_entries (\<lambda>html. html) char_encode char_decode failing_backend
              bytes_write_index bytes_json_dump None demo_bundle demo_ingest_args = (demo_bundle, Inl e))"
proof -
  have docs: "get_documents bytes_sql_entries (\<lambda>html. html) demo_bundle (a_docset demo_ingest_args) = Inr [(''a'', ''hi'')]"
    by (simp add: get_documents_def demo_bundle_def demo_ingest_args_def isfile_def isdir_def
        file_content_def path_join_def bytes_sql_entries_def)
  have chunks: "collect_chunks char_encode char_decode ([], []) [(''a'', ''hi'')] = Inr ([''hi''], [meta_record ''a'' ''hi''])"
    by (simp add: chunk_text_def char_encode_def char_decode_def py_range_def
        range_up.simps py_slice_def slice_bound_def)
  have batch: "0 \<in> set (range_up 0 (int (length [''hi''])) batch_size)"
    by (simp add: range_up.simps batch_size_def)
  have fails: "failing_backend (py_slice [''hi''] 0 (0 + batch_size)) (a_model demo_ingest_args) = Inl ''rate limit''"
    by (simp add: failing_backend_def)
  show ?thesis
    using docs chunks batch fails
      failed_batch_persists_nothing [of bytes_sql_entries "\<lambda>html. html" demo_bundle demo_ingest_args
        "[(''a'', ''hi'')]" char_encode char_decode "[''hi'']" "[meta_record ''a'' ''hi'']" 0
        failing_backend "''rate limit''" bytes_write_index bytes_json_dump None,
        OF docs chunks batch fails]
    by (intro conjI)
qed

section \<open>Properties of loading and retrieval\<close>

subsection \<open>More results requested than rows\<close>

lemma flat_search_two_rows:
  "flat_search \<lparr>idx_d = d, idx_rows = [[1], [5]]\<rparr> [1] 3 = Inr ([0, 16, pad_distance], [0, 1, - 1])"
  by (simp add: flat_search_def ntotal_def l2_distance_def upt_rec [of 0] upt_rec [of 1] upt_rec [of 2])

text \<open>
  Claim C1 says that with \<open>k\<close> above the row count the retrieval returns exactly
  \<open>row_count\<close> results and never reads a metadata record through a \<open>-1\<close> sentinel. Here
  the code is run on a store of two rows with \<open>k = 3\<close>: both loops take every pair that
  the search returns, \<^verbatim>\<open>meta[-1]\<close> is Python's last element, and a third result appears,
  a copy of the last record with the padding distance.
\<close>

theorem retrieve_docs_sentinel_reads_last_record:
  "retrieve_docs flat_search len_backend \<lparr>idx_d = 1, idx_rows = [[1], [5]]\<rparr>
      [meta_record ''A'' ''a'', meta_record ''B'' ''b''] ''q'' ''m'' 3
    = ([EmbedCall [''q''] ''m'', SearchCall \<lparr>idx_d = 1, idx_rows = [[1], [5]]\<rparr> [1] 3],
       Inr [\<lparr>res_name = ''A'', res_chunk = ''a'', res_distance = 0\<rparr>,
            \<lparr>res_name = ''B'', res_chunk = ''b'', res_distance = 16\<rparr>,
            \<lparr>res_name = ''B'', res_chunk = ''b'', res_distance = pad_distance\<rparr>])
   \<and> display_loop [meta_record ''A'' ''a'', meta_record ''B'' ''b''] []
        (zip [0, 16, pad_distance] [0, 1, - 1])
    = Inr [\<lparr>res_name = ''A'', res_chunk = ''a'', res_distance = 0\<rparr>,
           \<lparr>res_name = ''B'', res_chunk = ''b'', res_distance = 16\<rparr>,
           \<lparr>res_name = ''B'', res_chunk = ''b'', res_distance = pad_distance\<rparr>]"
  by (simp add: retrieve_docs_def embed_text_def len_backend_def flat_search_two_rows
      py_getitem_def dict_get_def meta_record_def)

subsection \<open>The empty store\<close>

text \<open>
  Claim C3 says that a query against a store with zero rows is rejected before the
  query vector reaches the search call. The code has no such check: on the empty store
  the search is called, and the run ends later, at the read of the metadata.
\<close>

theorem retrieve_docs_empty_store_counterexample:
  "ntotal \<lparr>idx_d = 1, idx_rows = []\<rparr> = 0
   \<and> retrieve_docs flat_search len_backend \<lparr>idx_d = 1, idx_rows = []\<rparr> [] ''q'' ''m'' 5
    = ([EmbedCall [''q''] ''m'', SearchCall \<lparr>idx_d = 1, idx_rows = []\<rparr> [1] 5], Inl IndexError)"
  by (simp add: retrieve_docs_def embed_text_def len_backend_def flat_search_def ntotal_def
      py_getitem_def numeral_eq_Suc)

text \<open>
  Claim C3, amended. For a query against a store with zero rows the retrieval makes no
  check of its own: once the query is embedded, the vector and \<open>k\<close> are passed to the
  search call of the index; a failure of that call is the failure of the retrieval, and
  an answer of that call is joined with the metadata.
\<close>

theorem retrieve_docs_empty_store_reaches_search:
  assumes "ntotal index = 0"
    and "embed_text backend query embed_model = Inr emb"
  shows "fst (retrieve_docs search backend index meta query embed_model topk)
           = [EmbedCall [query] embed_model, SearchCall index emb topk]
       \<and> (\<forall>msg. search index emb topk = Inl msg \<longrightarrow>
             snd (retrieve_docs search backend index meta query embed_model topk) = Inl (IndexLibError msg))
       \<and> (\<forall>D I. search index emb topk = Inr (D, I) \<longrightarrow>
             snd (retrieve_docs search backend index meta query embed_model topk)
               = results_loop meta [] (zip D I))"
  using assms(2) by (auto simp: retrieve_docs_def split: sum.splits)

theorem retrieve_docs_empty_store_reaches_search_witness:
  "ntotal \<lparr>idx_d = 1, idx_rows = []\<rparr> = 0
   \<and> embed_text len_backend ''q'' ''m'' = Inr [1]
   \<and> fst (retrieve_docs flat_search len_backend \<lparr>idx_d = 1, idx_rows = []\<rparr> [] ''q'' ''m'' 5)
       = [EmbedCall [''q''] ''m'', SearchCall \<lparr>idx_d = 1, idx_rows = []\<rparr> [1] 5]"
proof -
  have h1: "ntotal \<lparr>idx_d = 1, idx_rows = []\<rparr> = 0"
    by (simp add: ntotal_def)
  have h2: "embed_text len_backend ''q'' ''m'' = Inr [1]"
    by (simp add: embed_text_def len_backend_def)
  show ?thesis
    using h1 h2
      retrieve_docs_empty_store_reaches_search [OF h1 h2, of flat_search "[]" 5, THEN conjunct1]
    by (intro conjI)
qed

subsection \<open>Loading a misaligned pair\<close>

text \<open>
  Claim C4 says that loading fails when the metadata length differs from the row count.
  The two load functions check that their file exists and nothing else: a pair with
  two rows and one record loads.
\<close>

theorem load_store_misaligned_counterexample:
  "load_store bytes_read_index bytes_json_load demo_store ''i'' ''m''
     = Inr (\<lparr>idx_d = 1, idx_rows = [[97], [98]]\<rparr>, [meta_record ''x'' ''x''])
   \<and> ntotal \<lparr>idx_d = 1, idx_rows = [[97], [98]]\<rparr> \<noteq> length [meta_record ''x'' ''x'']"
  by (simp add: load_store_def load_index_def load_metadata_def demo_store_def isfile_def
      file_content_def bytes_read_index_def bytes_json_load_def ntotal_def)

text \<open>
  Claim C4, amended. Loading a persisted index artifact and its companion metadata file
  succeeds whenever both files exist and both readers accept them, whatever the
  metadata length and the row count are.
\<close>

theorem load_store_no_alignment_check:
  assumes "isfile fs index_path"
    and "isfile fs meta_path"
    and "read_index (file_content fs index_path) = Inr index"
    and "json_load (file_content fs meta_path) = Inr meta"
  shows "load_store read_index json_load fs index_path meta_path = Inr (index, meta)"
  using assms by (simp add: load_store_def load_index_def load_metadata_def)

theorem load_store_no_alignment_check_witness:
  "isfile demo_store ''i'' \<and> isfile demo_store ''m''
   \<and> bytes_read_index (file_content demo_store ''i'') = Inr \<lparr>idx_d = 1, idx_rows = [[97], [98]]\<rparr>
   \<and> bytes_json_load (file_content demo_store ''m'') = Inr [meta_record ''x'' ''x'']
   \<and> load_store bytes_read_index bytes_json_load demo_store ''i'' ''m''
        = Inr (\<lparr>idx_d = 1, idx_rows = [[97], [98]]\<rparr>, [meta_record ''x'' ''x''])"
proof -
  have h1: "isfile demo_store ''i''" and h2: "isfile demo_store ''m''"
    by (simp_all add: demo_store_def isfile_def)
  have h3: "bytes_read_index (file_content demo_store ''i'') = Inr \<lparr>idx_d = 1, idx_rows = [[97], [98]]\<rparr>"
    by (simp add: demo_store_def file_content_def bytes_read_index_def)
  have h4: "bytes_json_load (file_content demo_store ''m'') = Inr [meta_record ''x'' ''x'']"
    by (simp add: demo_store_def file_content_def bytes_json_load_def)
  show ?thesis
    using h1 h2 h3 h4
      load_store_no_alignment_check [of demo_store "''i''" "''m''" bytes_read_index
        "\<lparr>idx_d = 1, idx_rows = [[97], [98]]\<rparr>" bytes_json_load "[meta_record ''x'' ''x'']",
        OF h1 h2 h3 h4]
    by (intro conjI)
qed

subsection \<open>A result count that is not positive\<close>

text \<open>
  Claim C5 says that a request with \<open>k \<le> 0\<close> fails before any search is performed. Both
  \<^verbatim>\<open>main\<close> functions pass \<^verbatim>\<open>--topk\<close> on as parsed: with \<open>k = 0\<close> the search is called.
\<close>

theorem nonpositive_topk_counterexample:
  "q_topk (demo_query_args 0) \<le> 0
   \<and> fst (assist_main bytes_read_index bytes_json_load flat_search len_backend None demo_store
            (demo_query_args 0))
       = [EmbedCall [''q''] ''e'', SearchCall \<lparr>idx_d = 1, idx_rows = [[97], [98]]\<rparr> [1] 0]
   \<and> fst (query_main bytes_read_index bytes_json_load flat_search len_backend None demo_store
            (demo_query_args 0))
       = [EmbedCall [''q''] ''e'', SearchCall \<lparr>idx_d = 1, idx_rows = [[97], [98]]\<rparr> [1] 0]"
  by (simp add: assist_main_def query_main_def demo_query_args_def no_key_def api_key_def
      load_store_def load_index_def load_metadata_def demo_store_def isfile_def
      file_content_def bytes_read_index_def bytes_json_load_def retrieve_docs_def
      embed_text_def len_backend_def flat_search_def split: sum.splits prod.splits)

text \<open>
  Claim C5, amended. For every retrieval request with \<open>k \<le> 0\<close> (credential present, pair
  loaded, query embedded), both scripts call the search of the index with that \<open>k\<close>
  unchanged; no check of \<open>k\<close> is made before the call.
\<close>

theorem nonpositive_topk_reaches_search:
  assumes "q_topk args \<le> 0"
    and "\<not> no_key (api_key (q_key args) env_key)"
    and "load_store read_index json_load fs (q_index args) (q_meta args) = Inr (index, meta)"
    and "embed_text backend (q_query args) (q_model args) = Inr emb"
  shows "fst (assist_main read_index json_load search backend env_key fs args)
           = [EmbedCall [q_query args] (q_model args), SearchCall index emb (q_topk args)]
       \<and> fst (query_main read_index json_load search backend env_key fs args)
           = [EmbedCall [q_query args] (q_model args), SearchCall index emb (q_topk args)]"
  using assms(2-4)
  by (auto simp: assist_main_def query_main_def retrieve_docs_def split: sum.splits prod.splits)

theorem nonpositive_topk_reaches_search_witness:
  "q_topk (demo_query_args (- 3)) \<le> 0
   \<and> \<not> no_key (api_key (q_key (demo_query_args (- 3))) None)
   \<and> load_store bytes_read_index bytes_json_load demo_store
        (q_index (demo_query_args (- 3))) (q_meta (demo_query_args (- 3)))
       = Inr (\<lparr>idx_d = 1, idx_rows = [[97], [98]]\<rparr>, [meta_record ''x'' ''x''])
   \<and> embed_text len_backend (q_query (demo_query_args (- 3))) (q_model (demo_query_args (- 3))) = Inr [1]
   \<and> fst (assist_main bytes_read_index bytes_json_load flat_search len_backend None demo_store
            (demo_query_args (- 3)))
       = [EmbedCall [q_query (demo_query_args (- 3))] (q_model (demo_query_args (- 3))),
          SearchCall \<lparr>idx_d = 1, idx_rows = [[97], [98]]\<rparr> [1] (q_topk (demo_query_args (- 3)))]"
proof -
  have h1: "q_topk (demo_query_args (- 3)) \<le> 0"
    by (simp add: demo_query_args_def)
  have h2: "\<not> no_key (api_key (q_key (demo_query_args (- 3))) None)"
    by (simp add: demo_query_args_def no_key_def api_key_def)
  have h3: "load_store bytes_read_index bytes_json_load demo_store
        (q_index (demo_query_args (- 3))) (q_meta (demo_query_args (- 3)))
       = Inr (\<lparr>idx_d = 1, idx_rows = [[97], [98]]\<rparr>, [meta_record ''x'' ''x''])"
    by (simp add: load_store_def load_index_def load_metadata_def demo_store_def isfile_def
        file_content_def bytes_read_index_def bytes_json_load_def demo_query_args_def)
  have h4: "embed_text len_backend (q_query (demo_query_args (- 3))) (q_model (demo_query_args (- 3))) = Inr [1]"
    by (simp add: embed_text_def len_backend_def demo_query_args_def)
  show ?thesis
    using h1 h2 h3 h4
      nonpositive_topk_reaches_search [OF h1 h2 h3 h4, of flat_search, THEN conjunct1]
    by (intro conjI)
qed

end
